theory Spec2Isabelle
  imports Complex_Main "HOL-Library.Word"
begin

section \<open>Data model of the symbolic package\<close>

text \<open>
  \<^verbatim>\<open>K\<close> is a \<^verbatim>\<open>float64\<close>; coefficients and constants are modelled as
  \<^typ>\<open>real\<close>, so rounding, infinities and NaN are outside the model. Go's \<^verbatim>\<open>int\<close>
  is \<^typ>\<open>int\<close>, the variable identifier (\<^verbatim>\<open>uint64\<close>) a 64-bit word.
\<close>

text \<open>
  Modelled from the spec: the declaration of \<^verbatim>\<open>Variable\<close> is not under src/ (only
  its field \<^verbatim>\<open>ID\<close> is read there, as a \<^verbatim>\<open>uint64\<close>); the spec gives a variable no
  payload beyond its identity.
\<close>

record Variable =
  ID :: "64 word"

text \<open>
  Modelled from the spec: the declaration of \<^verbatim>\<open>Monomial\<close> is not under src/; its
  three fields are the ones \<^verbatim>\<open>K.ToMonomial\<close> fills in.
\<close>

record Monomial =
  Coefficient :: real
  VariableFactors :: "Variable list"
  Exponents :: "int list"

record Polynomial =
  Monomials :: "Monomial list"

record VariableVector =
  Elements :: "Variable list"

type_synonym VariableMatrix = "Variable list list"

text \<open>
  The operand of \<^verbatim>\<open>Plus\<close>, \<^verbatim>\<open>Multiply\<close> and \<^verbatim>\<open>Comparison\<close> is an
  \<^verbatim>\<open>interface{}\<close>; the type switches of the source distinguish the dynamic types below.
  \<open>OOther\<close> stands for a value of a type from outside the package, such as a string
  (its argument is the type's name). The package's remaining containers (\<^verbatim>\<open>KMatrix\<close>,
  \<^verbatim>\<open>MonomialVector\<close>, \<^verbatim>\<open>MonomialMatrix\<close>, \<^verbatim>\<open>PolynomialVector\<close>,
  \<^verbatim>\<open>PolynomialMatrix\<close>), \<^verbatim>\<open>mat.Dense\<close> and the pointer types are declared
  outside src/ and are not operands of this model.
\<close>

datatype Operand =
    OFloat real
  | OInt int
  | OK real
  | OVariable Variable
  | OMonomial Monomial
  | OPolynomial Polynomial
  | OVecDense "real list"
  | OKVector "real list"
  | OVariableVector VariableVector
  | OVariableMatrix VariableMatrix
  | OOther string

text \<open>
  Modelled from the spec: the declaration of \<^verbatim>\<open>ConstrSense\<close> is not under src/; the
  source names its three values.
\<close>

datatype ConstrSense = SenseEqual | SenseLessThanEqual | SenseGreaterThanEqual

text \<open>
  Every \<^verbatim>\<open>panic\<close> and every returned \<^verbatim>\<open>error\<close> is a value of this type.
  \<^item> \<open>EmptyMatrixError\<close>, \<open>EmptyVectorError\<close>, \<open>MatrixColumnMismatchError\<close>
    (expected columns, actual columns, row), \<open>DimensionError\<close> (first argument, second
    argument, operation) and \<open>UnsupportedInputError\<close> (function name, input) are the
    structs of package \<^verbatim>\<open>smErrors\<close>, with their fields.
  \<^item> The errors built with \<^verbatim>\<open>fmt.Errorf\<close> carry the arguments of their format:
    \<open>UnexpectedTypeError\<close> for the messages about an unrecognised or unexpected operand
    type, \<open>ComparisonLengthError\<close> for "The two inputs to comparison ... must have the
    same dimension, but #1 has dimension ... and #2 has dimension ...",
    \<open>NotImplementedError\<close> for "... is not implemented yet for type ...",
    \<open>ElementError\<close> for "element ... has an issue: ...", \<open>EntryError\<close> for "error in
    entry (..., ...): ..." and \<open>SecondArgumentError\<close> for "error in second argument to
    ...: ...".
  \<^item> \<open>ArityMismatchError\<close> (factors, exponents) is the error of a monomial's check.
  \<^item> \<open>IndexOutOfRange\<close> (index, length), \<open>TypeAssertionError\<close> and
    \<open>NilPointerDereference\<close> are panics of the Go run time; \<open>ZeroLengthError\<close> is the
    panic of the dense linear-algebra library on a zero dimension.
\<close>

datatype error =
    EmptyMatrixError Operand
  | EmptyVectorError Operand
  | MatrixColumnMismatchError int int int
  | DimensionError Operand Operand string
  | UnsupportedInputError string Operand
  | UnexpectedTypeError string Operand
  | ComparisonLengthError ConstrSense int int
  | NotImplementedError string Operand
  | ElementError int error
  | EntryError int int error
  | SecondArgumentError string error
  | ArityMismatchError int int
  | IndexOutOfRange int nat
  | TypeAssertionError string
  | NilPointerDereference
  | ZeroLengthError

text \<open>
  Modelled from the spec: the declarations of the constraint structs are not under src/.
  A constraint is a left-hand side, a right-hand side and a sense, as the composite
  literals of the source fill them in.
\<close>

datatype Constraint =
    ScalarConstraint Operand Operand ConstrSense
  | VectorConstraint Operand Operand ConstrSense
  | MatrixConstraint Operand Operand ConstrSense

text \<open>
  Reading a slice at an index: Go panics when the index is negative or not below the
  length.
\<close>

definition index_get :: "'a list \<Rightarrow> int \<Rightarrow> error + 'a" where
  "index_get xs i =
     (if 0 \<le> i \<and> i < int (length xs) then Inr (xs ! nat i)
      else Inl (IndexOutOfRange i (length xs)))"

section \<open>Constants, variables and monomials\<close>

definition K_Check :: "real \<Rightarrow> error option" where
  "K_Check c = None"

definition K_Constant :: "real \<Rightarrow> real" where
  "K_Constant c = c"

definition K_Dims :: "real \<Rightarrow> int list" where
  "K_Dims c = [1, 1]"

definition K_ToMonomial :: "real \<Rightarrow> Monomial" where
  "K_ToMonomial c = \<lparr>Coefficient = c, VariableFactors = [], Exponents = []\<rparr>"

definition K_ToPolynomial :: "real \<Rightarrow> Polynomial" where
  "K_ToPolynomial c = \<lparr>Monomials = [K_ToMonomial c]\<rparr>"

text \<open>
  Modelled from the spec: \<^verbatim>\<open>Variable.Check\<close> is not under src/. A variable is
  nothing but its identity, and the spec names no way for one to be ill-formed.
\<close>

definition Variable_Check :: "Variable \<Rightarrow> error option" where
  "Variable_Check v = None"

text \<open>
  Modelled from the spec: \<^verbatim>\<open>Variable.ToMonomial\<close> is not under src/. Promotion
  turns a variable into the monomial with coefficient one and that single factor.
\<close>

definition Variable_ToMonomial :: "Variable \<Rightarrow> Monomial" where
  "Variable_ToMonomial v = \<lparr>Coefficient = 1, VariableFactors = [v], Exponents = [1]\<rparr>"

text \<open>
  Modelled from the spec: \<^verbatim>\<open>Monomial.Check\<close> is not under src/. A monomial fails
  its check if the number of exponents does not equal the number of variable factors.
\<close>

definition Monomial_Check :: "Monomial \<Rightarrow> error option" where
  "Monomial_Check m =
     (if length (Exponents m) \<noteq> length (VariableFactors m)
      then Some (ArityMismatchError (int (length (VariableFactors m))) (int (length (Exponents m))))
      else None)"

text \<open>
  Modelled from the spec: \<^verbatim>\<open>Monomial.IsConstant\<close> is not under src/. A monomial
  with an empty factor list represents a pure constant.
\<close>

definition Monomial_IsConstant :: "Monomial \<Rightarrow> bool" where
  "Monomial_IsConstant m = (length (VariableFactors m) = 0)"

text \<open>
  Modelled from the spec: \<^verbatim>\<open>Monomial.IsVariable\<close> is not under src/. A monomial
  stands for the variable \<open>v\<close> when \<open>v\<close> with exponent one is its only factor.
\<close>

definition Monomial_IsVariable :: "Monomial \<Rightarrow> Variable \<Rightarrow> bool" where
  "Monomial_IsVariable m v =
     (VariableFactors m = [v] \<and> Exponents m = [1])"

text \<open>
  Modelled from the spec: \<^verbatim>\<open>Monomial.Variables\<close> is not under src/; the variables
  of a monomial are its factors.
\<close>

definition Monomial_Variables :: "Monomial \<Rightarrow> Variable list" where
  "Monomial_Variables m = VariableFactors m"

text \<open>
  Modelled from the spec: \<^verbatim>\<open>UniqueVars\<close> is not under src/. It removes duplicates
  by identity; here the first occurrence of each identifier is kept.
\<close>

fun UniqueVars :: "Variable list \<Rightarrow> Variable list \<Rightarrow> Variable list" where
  "UniqueVars [] acc = acc"
| "UniqueVars (v # vs) acc =
     (if ID v \<in> set (map ID acc) then UniqueVars vs acc else UniqueVars vs (acc @ [v]))"

section \<open>Polynomial (polynomial.go)\<close>

fun Polynomial_Check_loop :: "Monomial list \<Rightarrow> error option" where
  "Polynomial_Check_loop [] = None"
| "Polynomial_Check_loop (monomial # rest) =
     (case Monomial_Check monomial of
        Some err \<Rightarrow> Some err
      | None \<Rightarrow> Polynomial_Check_loop rest)"

definition Polynomial_Check :: "Polynomial \<Rightarrow> error option" where
  "Polynomial_Check p = Polynomial_Check_loop (Monomials p)"

definition Polynomial_Variables :: "Polynomial \<Rightarrow> Variable list" where
  "Polynomial_Variables p =
     UniqueVars (concat (map Monomial_Variables (Monomials p))) []"

definition Polynomial_Dims :: "Polynomial \<Rightarrow> int list" where
  "Polynomial_Dims p = [1, 1]"

fun ConstantMonomialIndex_loop :: "int \<Rightarrow> Monomial list \<Rightarrow> int" where
  "ConstantMonomialIndex_loop ii [] = - 1"
| "ConstantMonomialIndex_loop ii (monomial # rest) =
     (if Monomial_IsConstant monomial then ii
      else ConstantMonomialIndex_loop (ii + 1) rest)"

definition ConstantMonomialIndex :: "Polynomial \<Rightarrow> error + int" where
  "ConstantMonomialIndex p =
     (case Polynomial_Check p of
        Some err \<Rightarrow> Inl err
      | None \<Rightarrow> Inr (ConstantMonomialIndex_loop 0 (Monomials p)))"

fun VariableMonomialIndex_loop :: "Variable \<Rightarrow> int \<Rightarrow> Monomial list \<Rightarrow> int" where
  "VariableMonomialIndex_loop vIn ii [] = - 1"
| "VariableMonomialIndex_loop vIn ii (monomial # rest) =
     (if Monomial_IsVariable monomial vIn then ii
      else VariableMonomialIndex_loop vIn (ii + 1) rest)"

definition VariableMonomialIndex :: "Polynomial \<Rightarrow> Variable \<Rightarrow> error + int" where
  "VariableMonomialIndex p vIn =
     (case Polynomial_Check p of
        Some err \<Rightarrow> Inl err
      | None \<Rightarrow>
          (case Variable_Check vIn of
             Some err \<Rightarrow> Inl err
           | None \<Rightarrow> Inr (VariableMonomialIndex_loop vIn 0 (Monomials p))))"


section \<open>VariableVector and VariableMatrix: length, validity, dimensions\<close>

definition VariableVector_Length :: "VariableVector \<Rightarrow> int" where
  "VariableVector_Length vv = int (length (Elements vv))"

definition VariableVector_Len :: "VariableVector \<Rightarrow> int" where
  "VariableVector_Len vv = VariableVector_Length vv"

definition VariableVector_Dims :: "VariableVector \<Rightarrow> int list" where
  "VariableVector_Dims vv = [VariableVector_Len vv, 1]"

fun VariableVector_Check_loop :: "int \<Rightarrow> Variable list \<Rightarrow> error option" where
  "VariableVector_Check_loop ii [] = None"
| "VariableVector_Check_loop ii (element # rest) =
     (case Variable_Check element of
        Some err \<Rightarrow> Some (ElementError ii err)
      | None \<Rightarrow> VariableVector_Check_loop (ii + 1) rest)"

definition VariableVector_Check :: "VariableVector \<Rightarrow> error option" where
  "VariableVector_Check vv = VariableVector_Check_loop 0 (Elements vv)"

text \<open>The first loop of \<^verbatim>\<open>VariableMatrix.Check\<close>: every row has \<open>numCols\<close> columns.\<close>

fun VariableMatrix_Check_columns :: "int \<Rightarrow> int \<Rightarrow> Variable list list \<Rightarrow> error option" where
  "VariableMatrix_Check_columns numCols ii [] = None"
| "VariableMatrix_Check_columns numCols ii (vmRow # rest) =
     (if int (length vmRow) \<noteq> numCols
      then Some (MatrixColumnMismatchError numCols (int (length vmRow)) ii)
      else VariableMatrix_Check_columns numCols (ii + 1) rest)"

text \<open>The second, nested loop: every entry passes its own check.\<close>

fun VariableMatrix_Check_row :: "int \<Rightarrow> int \<Rightarrow> Variable list \<Rightarrow> error option" where
  "VariableMatrix_Check_row ii jj [] = None"
| "VariableMatrix_Check_row ii jj (v # rest) =
     (case Variable_Check v of
        Some err \<Rightarrow> Some (EntryError ii jj err)
      | None \<Rightarrow> VariableMatrix_Check_row ii (jj + 1) rest)"

fun VariableMatrix_Check_entries :: "int \<Rightarrow> Variable list list \<Rightarrow> error option" where
  "VariableMatrix_Check_entries ii [] = None"
| "VariableMatrix_Check_entries ii (vmRow # rest) =
     (case VariableMatrix_Check_row ii 0 vmRow of
        Some err \<Rightarrow> Some err
      | None \<Rightarrow> VariableMatrix_Check_entries (ii + 1) rest)"

definition VariableMatrix_Check :: "VariableMatrix \<Rightarrow> error option" where
  "VariableMatrix_Check vm =
     (if length vm = 0 then Some (EmptyMatrixError (OVariableMatrix vm))
      else
        (let numCols = int (length (vm ! 0)) in
         case VariableMatrix_Check_columns numCols 0 vm of
           Some err \<Rightarrow> Some err
         | None \<Rightarrow> VariableMatrix_Check_entries 0 vm))"

definition VariableMatrix_Dims :: "VariableMatrix \<Rightarrow> error + int list" where
  "VariableMatrix_Dims vm =
     (case VariableMatrix_Check vm of
        Some err \<Rightarrow> Inl err
      | None \<Rightarrow> Inr [int (length vm), int (length (vm ! 0))])"

section \<open>Dynamic dispatch (expression.go, scalar\_expression.go)\<close>

fun IsScalarExpression :: "Operand \<Rightarrow> bool" where
  "IsScalarExpression (OFloat x) = True"
| "IsScalarExpression (OK c) = True"
| "IsScalarExpression (OVariable v) = True"
| "IsScalarExpression e = False"

text \<open>
  \<^verbatim>\<open>ToScalarExpression\<close> returns a pair of a value and an error; the value is
  \<^verbatim>\<open>K(1.0)\<close> when the error is set.
\<close>

fun ToScalarExpression :: "Operand \<Rightarrow> Operand \<times> error option" where
  "ToScalarExpression (OFloat e2) = (OK e2, None)"
| "ToScalarExpression (OK e2) = (OK e2, None)"
| "ToScalarExpression (OVariable e2) = (OVariable e2, None)"
| "ToScalarExpression e = (OK 1, Some (UnexpectedTypeError ''ToScalarExpression'' e))"

text \<open>
  Modelled from the spec: \<^verbatim>\<open>IsVectorExpression\<close> is not under src/. The vector
  containers are the vector variants of each term type; a dense numeric vector is accepted
  as a constant vector through a conversion.
\<close>

fun IsVectorExpression :: "Operand \<Rightarrow> bool" where
  "IsVectorExpression (OVecDense xs) = True"
| "IsVectorExpression (OKVector xs) = True"
| "IsVectorExpression (OVariableVector vv) = True"
| "IsVectorExpression e = False"

text \<open>
  Modelled from the spec: \<^verbatim>\<open>IsMatrixExpression\<close> is not under src/. The matrix
  containers are the matrix variants of each term type.
\<close>

fun IsMatrixExpression :: "Operand \<Rightarrow> bool" where
  "IsMatrixExpression (OVariableMatrix vm) = True"
| "IsMatrixExpression e = False"

text \<open>
  Modelled from the spec: \<^verbatim>\<open>ToVectorExpression\<close> is not under src/. A vector
  container converts to itself, a dense numeric vector to the constant vector of its
  entries; any other operand gives an error.
\<close>

fun ToVectorExpression :: "Operand \<Rightarrow> Operand \<times> error option" where
  "ToVectorExpression (OVecDense xs) = (OKVector xs, None)"
| "ToVectorExpression (OKVector xs) = (OKVector xs, None)"
| "ToVectorExpression (OVariableVector vv) = (OVariableVector vv, None)"
| "ToVectorExpression e = (OVariableVector \<lparr>Elements = []\<rparr>,
     Some (UnexpectedTypeError ''ToVectorExpression'' e))"

text \<open>
  Modelled from the spec: \<^verbatim>\<open>ToMatrixExpression\<close> is not under src/. A matrix
  container converts to itself; any other operand gives an error.
\<close>

fun ToMatrixExpression :: "Operand \<Rightarrow> Operand \<times> error option" where
  "ToMatrixExpression (OVariableMatrix vm) = (OVariableMatrix vm, None)"
| "ToMatrixExpression e = (OVariableMatrix [],
     Some (UnexpectedTypeError ''ToMatrixExpression'' e))"

definition IsExpression :: "Operand \<Rightarrow> bool" where
  "IsExpression e = (IsScalarExpression e \<or> IsVectorExpression e \<or> IsMatrixExpression e)"

definition ToExpression :: "Operand \<Rightarrow> error + (Operand \<times> error option)" where
  "ToExpression e =
     (if IsScalarExpression e then Inr (ToScalarExpression e)
      else if IsVectorExpression e then Inr (ToVectorExpression e)
      else if IsMatrixExpression e then Inr (ToMatrixExpression e)
      else Inl (UnsupportedInputError ''ToExpression'' e))"

text \<open>
  Modelled from the spec: \<^verbatim>\<open>KVector.Check\<close> is not under src/. A container with no
  elements fails its check with an "empty" error; a constant is always valid.
\<close>

definition KVector_Check :: "real list \<Rightarrow> error option" where
  "KVector_Check kv = (if length kv = 0 then Some (EmptyVectorError (OKVector kv)) else None)"

text \<open>
  Modelled from the spec: \<^verbatim>\<open>KVector.Dims\<close> is not under src/. A vector is a matrix
  with one column.
\<close>

definition KVector_Dims :: "real list \<Rightarrow> int list" where
  "KVector_Dims kv = [int (length kv), 1]"

text \<open>
  Modelled from the spec: \<^verbatim>\<open>Variable.Dims\<close> is not under src/. A scalar has the
  dimensions one by one, as \<^verbatim>\<open>K.Dims\<close> and \<^verbatim>\<open>Polynomial.Dims\<close> have in the
  source.
\<close>

definition Variable_Dims :: "Variable \<Rightarrow> int list" where
  "Variable_Dims v = [1, 1]"

text \<open>
  Modelled from the spec: \<^verbatim>\<open>Monomial.Dims\<close> is not under src/. A monomial is a
  scalar as well.
\<close>

definition Monomial_Dims :: "Monomial \<Rightarrow> int list" where
  "Monomial_Dims m = [1, 1]"

text \<open>
  The interface methods \<^verbatim>\<open>Check\<close> and \<^verbatim>\<open>Dims\<close>, dispatched on the dynamic type.
  Go's type checker allows the call on an expression only; the last equation of each
  function stands for the operands that are not expressions and is never reached from the
  methods below.
\<close>

fun Expression_Check :: "Operand \<Rightarrow> error option" where
  "Expression_Check (OK c) = K_Check c"
| "Expression_Check (OVariable v) = Variable_Check v"
| "Expression_Check (OMonomial m) = Monomial_Check m"
| "Expression_Check (OPolynomial p) = Polynomial_Check p"
| "Expression_Check (OKVector kv) = KVector_Check kv"
| "Expression_Check (OVariableVector vv) = VariableVector_Check vv"
| "Expression_Check (OVariableMatrix vm) = VariableMatrix_Check vm"
| "Expression_Check e = Some (UnsupportedInputError ''Check'' e)"

fun Expression_Dims :: "Operand \<Rightarrow> error + int list" where
  "Expression_Dims (OK c) = Inr (K_Dims c)"
| "Expression_Dims (OVariable v) = Inr (Variable_Dims v)"
| "Expression_Dims (OMonomial m) = Inr (Monomial_Dims m)"
| "Expression_Dims (OPolynomial p) = Inr (Polynomial_Dims p)"
| "Expression_Dims (OKVector kv) = Inr (KVector_Dims kv)"
| "Expression_Dims (OVariableVector vv) = Inr (VariableVector_Dims vv)"
| "Expression_Dims (OVariableMatrix vm) = VariableMatrix_Dims vm"
| "Expression_Dims e = Inl (UnsupportedInputError ''Dims'' e)"

section \<open>Dimension checks (smErrors/dimension\_error.go)\<close>

text \<open>
  Modelled from the spec: the \<^verbatim>\<open>IsScalarExpression\<close> of package \<^verbatim>\<open>smErrors\<close>,
  which takes a \<^verbatim>\<open>MatrixLike\<close> (a value with a \<^verbatim>\<open>Dims\<close> method), is not under
  src/. A scalar is a value of shape one by one.
\<close>

definition smErrors_IsScalarExpression :: "Operand \<Rightarrow> bool" where
  "smErrors_IsScalarExpression e =
     (case Expression_Dims e of
        Inl err \<Rightarrow> False
      | Inr dims \<Rightarrow> dims ! 0 = 1 \<and> dims ! 1 = 1)"

text \<open>
  The checks return an error value or \<^verbatim>\<open>nil\<close> (\<open>Inr (Some err)\<close>, \<open>Inr None\<close>);
  \<open>Inl\<close> is a panic inside a \<^verbatim>\<open>Dims\<close> call on an operand that was not checked.
\<close>

definition CheckDimensionsInAddition :: "Operand \<Rightarrow> Operand \<Rightarrow> error + error option" where
  "CheckDimensionsInAddition left right =
     (case Expression_Dims left of
        Inl err \<Rightarrow> Inl err
      | Inr ldims \<Rightarrow>
          (case Expression_Dims right of
             Inl err \<Rightarrow> Inl err
           | Inr rdims \<Rightarrow>
               (let dimsAreMatched = (ldims ! 0 = rdims ! 0 \<and> ldims ! 1 = rdims ! 1);
                    dimsAreMatched = (dimsAreMatched \<or> smErrors_IsScalarExpression left);
                    dimsAreMatched = (dimsAreMatched \<or> smErrors_IsScalarExpression right)
                in if \<not> dimsAreMatched
                   then Inr (Some (DimensionError left right ''Plus''))
                   else Inr None)))"

definition CheckDimensionsInMultiplication :: "Operand \<Rightarrow> Operand \<Rightarrow> error + error option" where
  "CheckDimensionsInMultiplication left right =
     (case Expression_Dims left of
        Inl err \<Rightarrow> Inl err
      | Inr ldims \<Rightarrow>
          (case Expression_Dims right of
             Inl err \<Rightarrow> Inl err
           | Inr rdims \<Rightarrow>
               (let dimsMatch = (ldims ! 1 = rdims ! 0);
                    leftIsScalar = smErrors_IsScalarExpression left;
                    rightIsScalar = smErrors_IsScalarExpression right;
                    multiplicationIsAllowed = (dimsMatch \<or> leftIsScalar \<or> rightIsScalar)
                in if \<not> multiplicationIsAllowed
                   then Inr (Some (DimensionError left right ''Multiply''))
                   else Inr None)))"

text \<open>
  The block that opens \<^verbatim>\<open>Polynomial.Plus\<close>, \<^verbatim>\<open>Polynomial.Multiply\<close> and
  \<^verbatim>\<open>VariableVector.Multiply\<close>: if the operand is an expression, convert it, run the
  dimension check and panic with the error it returns. \<open>None\<close> means the method goes on.
\<close>

definition dimension_guard ::
  "(Operand \<Rightarrow> Operand \<Rightarrow> error + error option) \<Rightarrow> Operand \<Rightarrow> Operand \<Rightarrow> error option" where
  "dimension_guard check left e =
     (if IsExpression e then
        (case ToExpression e of
           Inl err \<Rightarrow> Some err
         | Inr (eAsE, _) \<Rightarrow>
             (case check left eAsE of
                Inl err \<Rightarrow> Some err
              | Inr (Some err) \<Rightarrow> Some err
              | Inr None \<Rightarrow> None))
      else None)"

section \<open>Polynomial.Plus\<close>

text \<open>
  The \<^verbatim>\<open>Variable\<close> case of the switch has no \<^verbatim>\<open>return\<close>: after its
  \<^verbatim>\<open>if\<close> the method leaves the switch and reaches the final \<^verbatim>\<open>panic\<close>.
\<close>

function Polynomial_Plus :: "Polynomial \<Rightarrow> Operand \<Rightarrow> error + Operand" where
  "Polynomial_Plus p e =
     (case Polynomial_Check p of
        Some err \<Rightarrow> Inl err
      | None \<Rightarrow>
     (case dimension_guard CheckDimensionsInAddition (OPolynomial p) e of
        Some err \<Rightarrow> Inl err
      | None \<Rightarrow>
     (case e of
        OFloat right \<Rightarrow> Polynomial_Plus p (OK right)
      | OK right \<Rightarrow>
          (case ConstantMonomialIndex p of
             Inl err \<Rightarrow> Inl err
           | Inr constantIndex \<Rightarrow>
               (if constantIndex \<noteq> - 1 then
                  Inr (OPolynomial (p\<lparr>Monomials := Monomials p @ [K_ToMonomial right]\<rparr>))
                else
                  (case index_get (Monomials p) constantIndex of
                     Inl err \<Rightarrow> Inl err
                   | Inr newMonomial \<Rightarrow>
                       Inr (OPolynomial (p\<lparr>Monomials := (Monomials p)
                              [nat constantIndex :=
                                 newMonomial\<lparr>Coefficient := Coefficient newMonomial + right\<rparr>]\<rparr>)))))
      | OVariable right \<Rightarrow>
          (case VariableMonomialIndex p right of
             Inl err \<Rightarrow> Inl err
           | Inr variableIndex \<Rightarrow>
               (if variableIndex \<noteq> - 1 then
                  Inl (UnexpectedTypeError ''Polynomial.Plus'' e)
                else
                  (case index_get (Monomials p) variableIndex of
                     Inl err \<Rightarrow> Inl err
                   | Inr newMonomial \<Rightarrow> Inl (UnexpectedTypeError ''Polynomial.Plus'' e))))
      | _ \<Rightarrow> Inl (UnexpectedTypeError ''Polynomial.Plus'' e))))"
  by pat_completeness auto
termination
  by (relation "measure (\<lambda>(p, e). case e of OFloat x \<Rightarrow> 1 | _ \<Rightarrow> 0)") auto

declare Polynomial_Plus.simps [simp del]

section \<open>VariableVector (variable\_vector.go)\<close>

definition VariableVector_Variables :: "VariableVector \<Rightarrow> Variable list" where
  "VariableVector_Variables vv = Elements vv"




definition VariableVector_Plus :: "VariableVector \<Rightarrow> Operand \<Rightarrow> error + Operand" where
  "VariableVector_Plus vv rightIn =
     (case VariableVector_Check vv of
        Some err \<Rightarrow> Inl err
      | None \<Rightarrow> Inl (UnexpectedTypeError ''VariableVector.Plus'' rightIn))"

definition VariableVector_Multiply :: "VariableVector \<Rightarrow> Operand \<Rightarrow> error + Operand" where
  "VariableVector_Multiply vv rightIn =
     (case VariableVector_Check vv of
        Some err \<Rightarrow> Inl err
      | None \<Rightarrow>
          (case dimension_guard CheckDimensionsInMultiplication (OVariableVector vv) rightIn of
             Some err \<Rightarrow> Inl err
           | None \<Rightarrow> Inl (UnexpectedTypeError ''VariableVector.Multiply'' rightIn)))"

text \<open>
  Modelled from the spec: \<^verbatim>\<open>KVector.Len\<close> is not under src/; a constant vector is
  the list of its entries.
\<close>

definition KVector_Len :: "real list \<Rightarrow> int" where
  "KVector_Len kv = int (length kv)"

function VariableVector_Comparison ::
  "VariableVector \<Rightarrow> Operand \<Rightarrow> ConstrSense \<Rightarrow> error + Constraint" where
  "VariableVector_Comparison vv rhs sense =
     (case rhs of
        OKVector rhsConverted \<Rightarrow>
          (if VariableVector_Len vv \<noteq> KVector_Len rhsConverted
           then Inl (ComparisonLengthError sense (VariableVector_Len vv) (KVector_Len rhsConverted))
           else Inr (VectorConstraint (OVariableVector vv) (OKVector rhsConverted) sense))
      | OVecDense rhsConverted \<Rightarrow>
          VariableVector_Comparison vv (OKVector rhsConverted) sense
      | OVariableVector rhsConverted \<Rightarrow>
          (if VariableVector_Len vv \<noteq> VariableVector_Len rhsConverted
           then Inl (ComparisonLengthError sense (VariableVector_Len vv)
                       (VariableVector_Len rhsConverted))
           else Inr (VectorConstraint (OVariableVector vv) (OVariableVector rhsConverted) sense))
      | _ \<Rightarrow> Inl (NotImplementedError ''VariableVector.Comparison'' rhs))"
  by pat_completeness auto
termination
  by (relation "measure (\<lambda>(vv, rhs, sense). case rhs of OVecDense x \<Rightarrow> 1 | _ \<Rightarrow> 0)") auto

declare VariableVector_Comparison.simps [simp del]

definition VariableVector_Transpose :: "VariableVector \<Rightarrow> Operand" where
  "VariableVector_Transpose vv = OVariableVector vv"

section \<open>VariableMatrix (variable\_matrix.go)\<close>

definition VariableMatrix_Variables :: "VariableMatrix \<Rightarrow> error + Variable list" where
  "VariableMatrix_Variables vm =
     (case VariableMatrix_Check vm of
        Some err \<Rightarrow> Inl err
      | None \<Rightarrow> Inr (UniqueVars (concat vm) []))"


text \<open>
  The type assertion \<^verbatim>\<open>e.(Expression)\<close> of \<^verbatim>\<open>VariableMatrix.Plus\<close> and
  \<^verbatim>\<open>VariableMatrix.Multiply\<close>: it yields \<^verbatim>\<open>nil\<close> for a value whose type does not
  implement the interface (a \<^verbatim>\<open>float64\<close>, a dense vector).
\<close>

fun assert_Expression :: "Operand \<Rightarrow> Operand option" where
  "assert_Expression (OFloat x) = None"
| "assert_Expression (OInt n) = None"
| "assert_Expression (OVecDense xs) = None"
| "assert_Expression (OOther name) = None"
| "assert_Expression e = Some e"

text \<open>
  The block that opens \<^verbatim>\<open>VariableMatrix.Plus\<close> and \<^verbatim>\<open>VariableMatrix.Multiply\<close>:
  the operand's own check, whose error is wrapped, then the dimension check. Calling
  \<^verbatim>\<open>Check\<close> on the \<^verbatim>\<open>nil\<close> interface is a run-time panic.
\<close>

definition VariableMatrix_guard ::
  "string \<Rightarrow> (Operand \<Rightarrow> Operand \<Rightarrow> error + error option) \<Rightarrow> VariableMatrix \<Rightarrow> Operand
     \<Rightarrow> error option" where
  "VariableMatrix_guard name check vm e =
     (if IsExpression e then
        (case assert_Expression e of
           None \<Rightarrow> Some NilPointerDereference
         | Some eAsE \<Rightarrow>
             (case Expression_Check eAsE of
                Some err \<Rightarrow> Some (SecondArgumentError name err)
              | None \<Rightarrow>
                  (case check (OVariableMatrix vm) eAsE of
                     Inl err \<Rightarrow> Some err
                   | Inr (Some err) \<Rightarrow> Some err
                   | Inr None \<Rightarrow> None)))
      else None)"

text \<open>
  Modelled from the spec: \<^verbatim>\<open>Variable.Plus\<close> is not under src/. Adding a constant to
  a variable promotes both to monomials and appends the unlike terms.
\<close>

definition Variable_Plus_K :: "Variable \<Rightarrow> real \<Rightarrow> error + Operand" where
  "Variable_Plus_K v k = Inr (OPolynomial \<lparr>Monomials = [Variable_ToMonomial v, K_ToMonomial k]\<rparr>)"

text \<open>
  Modelled from the spec: \<^verbatim>\<open>Variable.Multiply\<close> is not under src/. Multiplying a
  variable by a constant gives the monomial with that coefficient.
\<close>

definition Variable_Multiply_K :: "Variable \<Rightarrow> real \<Rightarrow> error + Operand" where
  "Variable_Multiply_K v k =
     Inr (OMonomial \<lparr>Coefficient = k, VariableFactors = [v], Exponents = [1]\<rparr>)"

text \<open>
  The loops of the \<^verbatim>\<open>K\<close> cases: every entry is combined with the constant and the
  result is asserted to be a polynomial (a monomial, for \<^verbatim>\<open>Multiply\<close>).
\<close>

fun Plus_row :: "real \<Rightarrow> Variable list \<Rightarrow> Polynomial list \<Rightarrow> error + Polynomial list" where
  "Plus_row right [] pmRow = Inr pmRow"
| "Plus_row right (v # rest) pmRow =
     (case Variable_Plus_K v right of
        Inl err \<Rightarrow> Inl err
      | Inr (OPolynomial p) \<Rightarrow> Plus_row right rest (pmRow @ [p])
      | Inr other \<Rightarrow> Inl (TypeAssertionError ''Polynomial''))"

fun Plus_rows ::
  "real \<Rightarrow> Variable list list \<Rightarrow> Polynomial list list \<Rightarrow> error + Polynomial list list" where
  "Plus_rows right [] pmOut = Inr pmOut"
| "Plus_rows right (vmRow # rest) pmOut =
     (case Plus_row right vmRow [] of
        Inl err \<Rightarrow> Inl err
      | Inr pmRow \<Rightarrow> Plus_rows right rest (pmOut @ [pmRow]))"

fun Multiply_row :: "real \<Rightarrow> Variable list \<Rightarrow> Monomial list \<Rightarrow> error + Monomial list" where
  "Multiply_row right [] mmRow = Inr mmRow"
| "Multiply_row right (v # rest) mmRow =
     (case Variable_Multiply_K v right of
        Inl err \<Rightarrow> Inl err
      | Inr (OMonomial m) \<Rightarrow> Multiply_row right rest (mmRow @ [m])
      | Inr other \<Rightarrow> Inl (TypeAssertionError ''Monomial''))"

fun Multiply_rows ::
  "real \<Rightarrow> Variable list list \<Rightarrow> Monomial list list \<Rightarrow> error + Monomial list list" where
  "Multiply_rows right [] mmOut = Inr mmOut"
| "Multiply_rows right (vmRow # rest) mmOut =
     (case Multiply_row right vmRow [] of
        Inl err \<Rightarrow> Inl err
      | Inr mmRow \<Rightarrow> Multiply_rows right rest (mmOut @ [mmRow]))"

text \<open>
  In both methods the \<^verbatim>\<open>K\<close> case builds its matrix and ends without a
  \<^verbatim>\<open>return\<close>, so control leaves the switch and reaches the \<^verbatim>\<open>panic\<close> that closes
  the method.
\<close>

function VariableMatrix_Plus :: "VariableMatrix \<Rightarrow> Operand \<Rightarrow> error + Operand" where
  "VariableMatrix_Plus vm e =
     (case VariableMatrix_Check vm of
        Some err \<Rightarrow> Inl err
      | None \<Rightarrow>
     (case VariableMatrix_guard ''VariableMatrix.Plus'' CheckDimensionsInAddition vm e of
        Some err \<Rightarrow> Inl err
      | None \<Rightarrow>
     (case e of
        OFloat right \<Rightarrow> VariableMatrix_Plus vm (OK right)
      | OK right \<Rightarrow>
          (case Plus_rows right vm [] of
             Inl err \<Rightarrow> Inl err
           | Inr pmOut \<Rightarrow> Inl (UnsupportedInputError ''VariableMatrix.Plus'' e))
      | _ \<Rightarrow> Inl (UnsupportedInputError ''VariableMatrix.Plus'' e))))"
  by pat_completeness auto
termination
  by (relation "measure (\<lambda>(vm, e). case e of OFloat x \<Rightarrow> 1 | _ \<Rightarrow> 0)") auto

declare VariableMatrix_Plus.simps [simp del]

function VariableMatrix_Multiply :: "VariableMatrix \<Rightarrow> Operand \<Rightarrow> error + Operand" where
  "VariableMatrix_Multiply vm e =
     (case VariableMatrix_Check vm of
        Some err \<Rightarrow> Inl err
      | None \<Rightarrow>
     (case VariableMatrix_guard ''VariableMatrix.Multiply'' CheckDimensionsInMultiplication vm e of
        Some err \<Rightarrow> Inl err
      | None \<Rightarrow>
     (case e of
        OFloat right \<Rightarrow> VariableMatrix_Multiply vm (OK right)
      | OK right \<Rightarrow>
          (case Multiply_rows right vm [] of
             Inl err \<Rightarrow> Inl err
           | Inr mmOut \<Rightarrow> Inl (UnsupportedInputError ''VariableMatrix.Multiply'' e))
      | _ \<Rightarrow> Inl (UnsupportedInputError ''VariableMatrix.Multiply'' e))))"
  by pat_completeness auto
termination
  by (relation "measure (\<lambda>(vm, e). case e of OFloat x \<Rightarrow> 1 | _ \<Rightarrow> 0)") auto

declare VariableMatrix_Multiply.simps [simp del]

section \<open>K (constant.go)\<close>

text \<open>
  Modelled from the spec: \<^verbatim>\<open>Monomial.Plus\<close> is not under src/. A constant added to
  a monomial merges into it when the monomial has no factors and is appended as an unlike
  term otherwise.
\<close>

definition Monomial_Plus_K :: "Monomial \<Rightarrow> real \<Rightarrow> error + Operand" where
  "Monomial_Plus_K m k =
     (case Monomial_Check m of
        Some err \<Rightarrow> Inl err
      | None \<Rightarrow>
          (if Monomial_IsConstant m
           then Inr (OMonomial (m\<lparr>Coefficient := Coefficient m + k\<rparr>))
           else Inr (OPolynomial \<lparr>Monomials = [m, K_ToMonomial k]\<rparr>)))"

text \<open>
  Modelled from the spec: \<^verbatim>\<open>KVector.Plus\<close> is not under src/. A constant added to a
  constant vector is added to every entry.
\<close>

definition KVector_Plus_K :: "real list \<Rightarrow> real \<Rightarrow> error + Operand" where
  "KVector_Plus_K kv k =
     (case KVector_Check kv of
        Some err \<Rightarrow> Inl err
      | None \<Rightarrow> Inr (OKVector (map (\<lambda>x. x + k) kv)))"

text \<open>
  Modelled from the spec: \<^verbatim>\<open>VecDenseToKVector\<close> is not under src/. A dense vector
  converts to the constant vector of its entries.
\<close>

definition VecDenseToKVector :: "real list \<Rightarrow> real list" where
  "VecDenseToKVector xs = xs"

text \<open>
  The block that opens \<^verbatim>\<open>K.Plus\<close> and \<^verbatim>\<open>K.Comparison\<close>: an operand that is an
  expression must pass its own check. \<^verbatim>\<open>K.Plus\<close> wraps the error, \<^verbatim>\<open>K.Comparison\<close>
  does not.
\<close>

definition K_guard :: "(error \<Rightarrow> error) \<Rightarrow> Operand \<Rightarrow> error option" where
  "K_guard wrap rightIn =
     (if IsExpression rightIn then
        (case ToExpression rightIn of
           Inl err \<Rightarrow> Some err
         | Inr (rightAsE, _) \<Rightarrow>
             (case Expression_Check rightAsE of
                Some err \<Rightarrow> Some (wrap err)
              | None \<Rightarrow> None))
      else None)"

function K_Plus :: "real \<Rightarrow> Operand \<Rightarrow> error + Operand" where
  "K_Plus c rightIn =
     (case K_guard (SecondArgumentError ''K.Plus'') rightIn of
        Some err \<Rightarrow> Inl err
      | None \<Rightarrow>
     (case rightIn of
        OInt right \<Rightarrow> K_Plus c (OK (of_int right))
      | OFloat right \<Rightarrow> K_Plus c (OK right)
      | OK right \<Rightarrow> Inr (OK (K_Constant c + K_Constant right))
      | OVariable right \<Rightarrow> Variable_Plus_K right c
      | OMonomial right \<Rightarrow> Monomial_Plus_K right c
      | OPolynomial right \<Rightarrow> Polynomial_Plus right (OK c)
      | OVecDense right \<Rightarrow> K_Plus c (OKVector (VecDenseToKVector right))
      | OKVector right \<Rightarrow> KVector_Plus_K right c
      | OVariableVector right \<Rightarrow> VariableVector_Plus right (OK c)
      | OVariableMatrix right \<Rightarrow> VariableMatrix_Plus right (OK c)
      | OOther name \<Rightarrow> Inl (UnsupportedInputError ''K.Plus'' rightIn)))"
  by pat_completeness auto
termination
  by (relation "measure (\<lambda>(c, rightIn).
        case rightIn of OInt x \<Rightarrow> 1 | OFloat x \<Rightarrow> 1 | OVecDense x \<Rightarrow> 1 | _ \<Rightarrow> 0)") auto

declare K_Plus.simps [simp del]

text \<open>The loop that appends \<open>c\<close> once for every entry of the vector operand.\<close>

function kAsKVector_loop :: "real \<Rightarrow> int \<Rightarrow> int \<Rightarrow> real list \<Rightarrow> real list" where
  "kAsKVector_loop c n ii kAsKVector =
     (if ii < n then kAsKVector_loop c n (ii + 1) (kAsKVector @ [c]) else kAsKVector)"
  by pat_completeness auto
termination
  by (relation "measure (\<lambda>(c, n, ii, kAsKVector). nat (n - ii))") auto

declare kAsKVector_loop.simps [simp del]

text \<open>
  In the vector cases \<^verbatim>\<open>len(right)\<close> is the number of entries of the operand. In the
  scalar case the error that \<^verbatim>\<open>ToScalarExpression\<close> returns is dropped, so a monomial
  or polynomial on the right is replaced by the \<^verbatim>\<open>K(1.0)\<close> that comes with the error.
\<close>

function K_Comparison :: "real \<Rightarrow> Operand \<Rightarrow> ConstrSense \<Rightarrow> error + Constraint" where
  "K_Comparison c rhsIn sense =
     (case K_guard (\<lambda>err. err) rhsIn of
        Some err \<Rightarrow> Inl err
      | None \<Rightarrow>
     (case rhsIn of
        OFloat right \<Rightarrow> K_Comparison c (OK right) sense
      | OK right \<Rightarrow> Inr (ScalarConstraint (OK c) (fst (ToScalarExpression rhsIn)) sense)
      | OVariable right \<Rightarrow> Inr (ScalarConstraint (OK c) (fst (ToScalarExpression rhsIn)) sense)
      | OMonomial right \<Rightarrow> Inr (ScalarConstraint (OK c) (fst (ToScalarExpression rhsIn)) sense)
      | OPolynomial right \<Rightarrow> Inr (ScalarConstraint (OK c) (fst (ToScalarExpression rhsIn)) sense)
      | OVecDense right \<Rightarrow> K_Comparison c (OKVector (VecDenseToKVector right)) sense
      | OKVector right \<Rightarrow>
          Inr (VectorConstraint (OKVector (kAsKVector_loop c (int (length right)) 0 []))
                 (OKVector right) sense)
      | OVariableVector right \<Rightarrow>
          Inr (VectorConstraint
                 (OKVector (kAsKVector_loop c (int (length (Elements right))) 0 []))
                 (OVariableVector right) sense)
      | _ \<Rightarrow> Inl (UnsupportedInputError ''K.Comparison'' rhsIn)))"
  by pat_completeness auto
termination
  by (relation "measure (\<lambda>(c, rhsIn, sense).
        case rhsIn of OFloat x \<Rightarrow> 1 | OVecDense x \<Rightarrow> 1 | _ \<Rightarrow> 0)") auto

declare K_Comparison.simps [simp del]

section \<open>Polynomial.Multiply, with the backing arrays of the slices\<close>

text \<open>
  Modelled from the spec: \<^verbatim>\<open>Monomial.Multiply\<close> is not under src/; this is its step
  for one factor of the right operand. The exponent of a shared variable is the sum of the
  two exponents; a new variable is appended with its exponent.
\<close>

fun multiply_factor ::
  "Variable \<Rightarrow> int \<Rightarrow> Variable list \<Rightarrow> int list \<Rightarrow> Variable list \<times> int list" where
  "multiply_factor v d (w # ws) (n # ns) =
     (if ID w = ID v then (w # ws, (n + d) # ns)
      else (case multiply_factor v d ws ns of (ws', ns') \<Rightarrow> (w # ws', n # ns')))"
| "multiply_factor v d ws ns = (ws @ [v], ns @ [d])"

text \<open>
  Modelled from the spec: the factors of the right operand of \<^verbatim>\<open>Monomial.Multiply\<close>,
  one after the other.
\<close>

fun multiply_factors ::
  "Variable list \<Rightarrow> int list \<Rightarrow> Variable list \<times> int list \<Rightarrow> Variable list \<times> int list" where
  "multiply_factors (v # vs) (d # ds) (ws, ns) = multiply_factors vs ds (multiply_factor v d ws ns)"
| "multiply_factors vs ds acc = acc"

text \<open>
  Modelled from the spec: the product of two monomials in \<^verbatim>\<open>Monomial.Multiply\<close>:
  coefficients multiply, factors combine.
\<close>

definition Monomial_Multiply_Monomial :: "Monomial \<Rightarrow> Monomial \<Rightarrow> Monomial" where
  "Monomial_Multiply_Monomial m right =
     (case multiply_factors (VariableFactors right) (Exponents right)
             (VariableFactors m, Exponents m) of
        (ws, ns) \<Rightarrow>
          \<lparr>Coefficient = Coefficient m * Coefficient right,
           VariableFactors = ws, Exponents = ns\<rparr>)"

text \<open>
  Modelled from the spec: \<^verbatim>\<open>Monomial.Multiply\<close> is not under src/. Both operands
  are checked; a constant and a variable are promoted to monomials; any other operand is
  unsupported.
\<close>

fun Monomial_Multiply :: "Monomial \<Rightarrow> Operand \<Rightarrow> error + Operand" where
  "Monomial_Multiply m (OK right) =
     (case Monomial_Check m of
        Some err \<Rightarrow> Inl err
      | None \<Rightarrow> Inr (OMonomial (Monomial_Multiply_Monomial m (K_ToMonomial right))))"
| "Monomial_Multiply m (OVariable right) =
     (case Monomial_Check m of
        Some err \<Rightarrow> Inl err
      | None \<Rightarrow> Inr (OMonomial (Monomial_Multiply_Monomial m (Variable_ToMonomial right))))"
| "Monomial_Multiply m (OMonomial right) =
     (case Monomial_Check m of
        Some err \<Rightarrow> Inl err
      | None \<Rightarrow>
          (case Monomial_Check right of
             Some err \<Rightarrow> Inl err
           | None \<Rightarrow> Inr (OMonomial (Monomial_Multiply_Monomial m right))))"
| "Monomial_Multiply m e = Inl (UnsupportedInputError ''Monomial.Multiply'' e)"

text \<open>
  A Go slice is a header (the address of a backing array, a length and a capacity); a
  \<^verbatim>\<open>Polynomial\<close> is a struct whose only field is such a header. The assignment
  \<^verbatim>\<open>pCopy := p\<close> copies the header, not the array, and
  \<^verbatim>\<open>pCopy.Monomials[ii] = ...\<close> writes into the array the two headers share. The store
  maps the address of each backing array to its contents; \<open>Polynomial_at\<close> reads the
  polynomial a header denotes.
\<close>

record Slice =
  slice_array :: nat
  slice_len :: nat
  slice_cap :: nat

type_synonym Store = "nat \<Rightarrow> Monomial list"

definition Polynomial_at :: "Store \<Rightarrow> Slice \<Rightarrow> Polynomial" where
  "Polynomial_at st p = \<lparr>Monomials = take (slice_len p) (st (slice_array p))\<rparr>"

text \<open>
  The loop \<^verbatim>\<open>for ii, _ := range pCopy.Monomials\<close>. A panic leaves the entries written
  so far in the store.
\<close>

function Multiply_loop :: "Operand \<Rightarrow> Slice \<Rightarrow> nat \<Rightarrow> Store \<Rightarrow> Store \<times> error option" where
  "Multiply_loop right pCopy ii st =
     (if ii < slice_len pCopy then
        (case Monomial_Multiply (st (slice_array pCopy) ! ii) right of
           Inl err \<Rightarrow> (st, Some err)
         | Inr (OMonomial product_ii) \<Rightarrow>
             Multiply_loop right pCopy (ii + 1)
               (st(slice_array pCopy := (st (slice_array pCopy))[ii := product_ii]))
         | Inr other \<Rightarrow> (st, Some (TypeAssertionError ''Monomial'')))
      else (st, None))"
  by pat_completeness auto
termination
  by (relation "measure (\<lambda>(right, pCopy, ii, st). slice_len pCopy - ii)") auto

declare Multiply_loop.simps [simp del]

function Polynomial_Multiply :: "Store \<Rightarrow> Slice \<Rightarrow> Operand \<Rightarrow> Store \<times> (error + Slice)" where
  "Polynomial_Multiply st p e =
     (case Polynomial_Check (Polynomial_at st p) of
        Some err \<Rightarrow> (st, Inl err)
      | None \<Rightarrow>
     (case dimension_guard CheckDimensionsInMultiplication (OPolynomial (Polynomial_at st p)) e of
        Some err \<Rightarrow> (st, Inl err)
      | None \<Rightarrow>
     (case e of
        OFloat right \<Rightarrow> Polynomial_Multiply st p (OK right)
      | OK right \<Rightarrow>
          (case Multiply_loop e p 0 st of
             (st', Some err) \<Rightarrow> (st', Inl err)
           | (st', None) \<Rightarrow> (st', Inr p))
      | OVariable right \<Rightarrow>
          (case Multiply_loop e p 0 st of
             (st', Some err) \<Rightarrow> (st', Inl err)
           | (st', None) \<Rightarrow> (st', Inr p))
      | OMonomial right \<Rightarrow>
          (case Multiply_loop e p 0 st of
             (st', Some err) \<Rightarrow> (st', Inl err)
           | (st', None) \<Rightarrow> (st', Inr p))
      | _ \<Rightarrow> (st, Inl (UnexpectedTypeError ''Polynomial.Multiply'' e)))))"
  by pat_completeness auto
termination
  by (relation "measure (\<lambda>(st, p, e). case e of OFloat x \<Rightarrow> 1 | _ \<Rightarrow> 0)") auto

declare Polynomial_Multiply.simps [simp del]

section \<open>Properties\<close>

subsection \<open>Shared facts\<close>

lemma VariableVector_Check_loop_None: "VariableVector_Check_loop ii vs = None"
  by (induction vs arbitrary: ii) (simp_all add: Variable_Check_def)

lemma VariableVector_Check_None: "VariableVector_Check vv = None"
  by (simp add: VariableVector_Check_def VariableVector_Check_loop_None)

lemma ConstantMonomialIndex_loop_found:
  "0 \<le> ii \<Longrightarrow>
     (ConstantMonomialIndex_loop ii ms \<noteq> - 1) = (\<exists>m \<in> set ms. VariableFactors m = [])"
  by (induction ms arbitrary: ii) (auto simp: Monomial_IsConstant_def)


lemma guard_Polynomial_K:
  "dimension_guard CheckDimensionsInAddition (OPolynomial p) (OK k) = None"
  by (simp add: dimension_guard_def IsExpression_def ToExpression_def
      CheckDimensionsInAddition_def Polynomial_Dims_def K_Dims_def)

lemma guard_Polynomial_Float:
  "dimension_guard CheckDimensionsInAddition (OPolynomial p) (OFloat x) = None"
  by (simp add: dimension_guard_def IsExpression_def ToExpression_def
      CheckDimensionsInAddition_def Polynomial_Dims_def K_Dims_def)

lemma Polynomial_Plus_invalid:
  "Polynomial_Check p = Some err \<Longrightarrow> Polynomial_Plus p e = Inl err"
  by (subst Polynomial_Plus.simps) simp

text \<open>A \<^verbatim>\<open>float64\<close> operand is handled exactly as the constant of that value.\<close>

lemma Polynomial_Plus_Float:
  "Polynomial_Plus p (OFloat x) = Polynomial_Plus p (OK x)"
proof (cases "Polynomial_Check p")
  case None
  then show ?thesis
    by (subst Polynomial_Plus.simps) (simp add: guard_Polynomial_Float)
next
  case (Some err)
  then show ?thesis by (simp add: Polynomial_Plus_invalid)
qed

subsection \<open>Adding a constant to a polynomial\<close>

text \<open>
  What \<^verbatim>\<open>Polynomial.Plus\<close> does with a constant on every valid polynomial. The test
  \<^verbatim>\<open>constantIndex != -1\<close> selects the branch that appends, so a polynomial that has a
  constant monomial gets a second one, and a polynomial that has none reaches
  \<^verbatim>\<open>pCopy.Monomials[-1]\<close>.
\<close>

lemma Polynomial_Plus_K_with_constant:
  assumes "Polynomial_Check p = None"
    and "\<exists>m \<in> set (Monomials p). VariableFactors m = []"
  shows "Polynomial_Plus p (OK k) =
           Inr (OPolynomial (p\<lparr>Monomials := Monomials p @ [K_ToMonomial k]\<rparr>))"
  using assms ConstantMonomialIndex_loop_found[of 0 "Monomials p"]
  by (simp add: Polynomial_Plus.simps guard_Polynomial_K ConstantMonomialIndex_def)

lemma Polynomial_Plus_K_without_constant:
  assumes "Polynomial_Check p = None"
    and "\<forall>m \<in> set (Monomials p). VariableFactors m \<noteq> []"
  shows "Polynomial_Plus p (OK k) = Inl (IndexOutOfRange (- 1) (length (Monomials p)))"
  using assms ConstantMonomialIndex_loop_found[of 0 "Monomials p"]
  by (simp add: Polynomial_Plus.simps guard_Polynomial_K ConstantMonomialIndex_def index_get_def)

text \<open>
  C1. The claim: for a valid polynomial \<open>p\<close> and a constant \<open>k\<close>, \<^verbatim>\<open>p.Plus(k)\<close> merges
  \<open>k\<close> into the constant monomial of \<open>p\<close> when there is one, leaving the number of terms
  unchanged, and appends \<open>k\<close> as a new constant monomial only when there is none. The
  code at two inputs: adding \<open>2\<close> to the polynomial \<open>3\<close> returns the two constant
  monomials \<open>3\<close> and \<open>2\<close> (a duplicate, one term more), and adding \<open>2\<close> to the
  polynomial \<open>x\<close> panics on the index \<open>-1\<close> instead of appending.
\<close>

theorem Polynomial_Plus_constant_branches_swapped:
  "Polynomial_Check
     \<lparr>Monomials = [\<lparr>Coefficient = 3, VariableFactors = [], Exponents = []\<rparr>]\<rparr> = None
   \<and> Polynomial_Check
     \<lparr>Monomials = [\<lparr>Coefficient = 1, VariableFactors = [\<lparr>ID = 1\<rparr>], Exponents = [1]\<rparr>]\<rparr>
     = None
   \<and> Polynomial_Plus
     \<lparr>Monomials = [\<lparr>Coefficient = 3, VariableFactors = [], Exponents = []\<rparr>]\<rparr> (OK 2)
   = Inr (OPolynomial \<lparr>Monomials =
       [\<lparr>Coefficient = 3, VariableFactors = [], Exponents = []\<rparr>,
        \<lparr>Coefficient = 2, VariableFactors = [], Exponents = []\<rparr>]\<rparr>)
   \<and> Polynomial_Plus
     \<lparr>Monomials = [\<lparr>Coefficient = 1, VariableFactors = [\<lparr>ID = 1\<rparr>], Exponents = [1]\<rparr>]\<rparr>
     (OK 2)
   = Inl (IndexOutOfRange (- 1) 1)"
  by (simp add: Polynomial_Plus.simps Polynomial_Check_def Monomial_Check_def
      dimension_guard_def IsExpression_def ToExpression_def CheckDimensionsInAddition_def
      Polynomial_Dims_def K_Dims_def ConstantMonomialIndex_def Monomial_IsConstant_def
      K_ToMonomial_def index_get_def)

subsection \<open>Adding zero\<close>

lemma K_guard_scalar:
  "K_guard wrap (OK k) = None" "K_guard wrap (OFloat x) = None" "K_guard wrap (OInt n) = None"
  by (simp_all add: K_guard_def IsExpression_def ToExpression_def K_Check_def)

lemma K_Plus_K: "K_Plus c (OK k) = Inr (OK (c + k))"
  by (subst K_Plus.simps) (simp add: K_guard_scalar K_Constant_def)

text \<open>A constant plus zero, given as a constant, a \<^verbatim>\<open>float64\<close> or an \<^verbatim>\<open>int\<close>.\<close>

lemma K_Plus_zero:
  "K_Plus c (OK 0) = Inr (OK c) \<and> K_Plus c (OFloat 0) = Inr (OK c)
   \<and> K_Plus c (OInt 0) = Inr (OK c)"
proof -
  have "K_Plus c (OFloat 0) = K_Plus c (OK 0)"
    by (subst K_Plus.simps) (simp add: K_guard_scalar)
  moreover have "K_Plus c (OInt 0) = K_Plus c (OK 0)"
    by (subst K_Plus.simps) (simp add: K_guard_scalar)
  ultimately show ?thesis by (simp add: K_Plus_K)
qed

lemma K_guard_Polynomial: "K_guard wrap (OPolynomial p) = None"
  by (simp add: K_guard_def IsExpression_def)

lemma K_Plus_Polynomial: "K_Plus c (OPolynomial p) = Polynomial_Plus p (OK c)"
  by (subst K_Plus.simps) (simp add: K_guard_Polynomial)

text \<open>
  A valid polynomial that has a constant monomial: adding zero appends a constant monomial
  with coefficient zero, which a merge of like terms would absorb.
\<close>

lemma Polynomial_Plus_zero_with_constant:
  assumes "Polynomial_Check p = None"
    and "\<exists>m \<in> set (Monomials p). VariableFactors m = []"
  shows "Polynomial_Plus p (OFloat 0) =
           Inr (OPolynomial (p\<lparr>Monomials := Monomials p @
                  [\<lparr>Coefficient = 0, VariableFactors = [], Exponents = []\<rparr>]\<rparr>))"
  using Polynomial_Plus_K_with_constant[OF assms, of 0]
  by (simp add: Polynomial_Plus_Float K_ToMonomial_def)

text \<open>
  C2. The claim: for every valid expression \<open>e\<close>, \<^verbatim>\<open>e.Plus(0)\<close> has the same monomials
  with the same coefficients as \<open>e\<close>. The code at the valid polynomial \<open>x\<close> (one
  monomial, no constant term): \<^verbatim>\<open>Plus(0.0)\<close> returns nothing, it panics on the index
  \<open>-1\<close>.
\<close>

theorem Polynomial_Plus_zero_panics_without_constant:
  "Polynomial_Check
     \<lparr>Monomials = [\<lparr>Coefficient = 1, VariableFactors = [\<lparr>ID = 1\<rparr>], Exponents = [1]\<rparr>]\<rparr>
   = None
   \<and> Polynomial_Plus
     \<lparr>Monomials = [\<lparr>Coefficient = 1, VariableFactors = [\<lparr>ID = 1\<rparr>], Exponents = [1]\<rparr>]\<rparr>
     (OFloat 0)
   = Inl (IndexOutOfRange (- 1) 1)"
  by (simp add: Polynomial_Plus.simps Polynomial_Check_def Monomial_Check_def
      dimension_guard_def IsExpression_def ToExpression_def CheckDimensionsInAddition_def
      Polynomial_Dims_def K_Dims_def ConstantMonomialIndex_def Monomial_IsConstant_def
      index_get_def)

subsection \<open>A scalar and a variable matrix\<close>

text \<open>The matrix that the \<^verbatim>\<open>K\<close> case of \<^verbatim>\<open>VariableMatrix.Plus\<close> builds.\<close>

lemma Plus_row_value:
  "Plus_row k vs acc =
     Inr (acc @ map (\<lambda>v. \<lparr>Monomials = [Variable_ToMonomial v, K_ToMonomial k]\<rparr>) vs)"
  by (induction vs arbitrary: acc) (simp_all add: Variable_Plus_K_def)

lemma Plus_rows_value:
  "Plus_rows k vm acc =
     Inr (acc @ map (map (\<lambda>v. \<lparr>Monomials = [Variable_ToMonomial v, K_ToMonomial k]\<rparr>)) vm)"
  by (induction vm arbitrary: acc) (simp_all add: Plus_row_value)

text \<open>Neither method ever returns a value, whatever the matrix and the operand.\<close>

lemma VariableMatrix_Plus_K_aborts: "\<exists>err. VariableMatrix_Plus vm (OK k) = Inl err"
proof (cases "VariableMatrix_Check vm")
  case (Some err)
  then show ?thesis by (subst VariableMatrix_Plus.simps) simp
next
  case None
  show ?thesis
  proof (cases "VariableMatrix_guard ''VariableMatrix.Plus'' CheckDimensionsInAddition vm (OK k)")
    case (Some err)
    with None show ?thesis by (subst VariableMatrix_Plus.simps) simp
  next
    case g: None
    show ?thesis
    proof (cases "Plus_rows k vm []")
      case (Inl err)
      with None g show ?thesis by (subst VariableMatrix_Plus.simps) simp
    next
      case (Inr pmOut)
      with None g show ?thesis by (subst VariableMatrix_Plus.simps) simp
    qed
  qed
qed

lemma VariableMatrix_Plus_aborts: "\<exists>err. VariableMatrix_Plus vm e = Inl err"
proof (cases "VariableMatrix_Check vm")
  case (Some err)
  then show ?thesis by (subst VariableMatrix_Plus.simps) simp
next
  case None
  show ?thesis
  proof (cases "VariableMatrix_guard ''VariableMatrix.Plus'' CheckDimensionsInAddition vm e")
    case (Some err)
    with None show ?thesis by (subst VariableMatrix_Plus.simps) simp
  next
    case g: None
    have unf: "VariableMatrix_Plus vm e =
      (case e of
         OFloat right \<Rightarrow> VariableMatrix_Plus vm (OK right)
       | OK right \<Rightarrow>
           (case Plus_rows right vm [] of
              Inl err \<Rightarrow> Inl err
            | Inr pmOut \<Rightarrow> Inl (UnsupportedInputError ''VariableMatrix.Plus'' e))
       | _ \<Rightarrow> Inl (UnsupportedInputError ''VariableMatrix.Plus'' e))"
      using None g by (subst VariableMatrix_Plus.simps) simp
    show ?thesis
    proof (cases e)
      case (OFloat x)
      with unf VariableMatrix_Plus_K_aborts[of vm x] show ?thesis by simp
    next
      case (OK k)
      with VariableMatrix_Plus_K_aborts[of vm k] show ?thesis by simp
    qed (insert unf, simp_all)
  qed
qed

lemma VariableMatrix_Multiply_K_aborts: "\<exists>err. VariableMatrix_Multiply vm (OK k) = Inl err"
proof (cases "VariableMatrix_Check vm")
  case (Some err)
  then show ?thesis by (subst VariableMatrix_Multiply.simps) simp
next
  case None
  show ?thesis
  proof (cases "VariableMatrix_guard ''VariableMatrix.Multiply''
                  CheckDimensionsInMultiplication vm (OK k)")
    case (Some err)
    with None show ?thesis by (subst VariableMatrix_Multiply.simps) simp
  next
    case g: None
    show ?thesis
    proof (cases "Multiply_rows k vm []")
      case (Inl err)
      with None g show ?thesis by (subst VariableMatrix_Multiply.simps) simp
    next
      case (Inr mmOut)
      with None g show ?thesis by (subst VariableMatrix_Multiply.simps) simp
    qed
  qed
qed

lemma VariableMatrix_Multiply_aborts: "\<exists>err. VariableMatrix_Multiply vm e = Inl err"
proof (cases "VariableMatrix_Check vm")
  case (Some err)
  then show ?thesis by (subst VariableMatrix_Multiply.simps) simp
next
  case None
  show ?thesis
  proof (cases "VariableMatrix_guard ''VariableMatrix.Multiply''
                  CheckDimensionsInMultiplication vm e")
    case (Some err)
    with None show ?thesis by (subst VariableMatrix_Multiply.simps) simp
  next
    case g: None
    have unf: "VariableMatrix_Multiply vm e =
      (case e of
         OFloat right \<Rightarrow> VariableMatrix_Multiply vm (OK right)
       | OK right \<Rightarrow>
           (case Multiply_rows right vm [] of
              Inl err \<Rightarrow> Inl err
            | Inr mmOut \<Rightarrow> Inl (UnsupportedInputError ''VariableMatrix.Multiply'' e))
       | _ \<Rightarrow> Inl (UnsupportedInputError ''VariableMatrix.Multiply'' e))"
      using None g by (subst VariableMatrix_Multiply.simps) simp
    show ?thesis
    proof (cases e)
      case (OFloat x)
      with unf VariableMatrix_Multiply_K_aborts[of vm x] show ?thesis by simp
    next
      case (OK k)
      with VariableMatrix_Multiply_K_aborts[of vm k] show ?thesis by simp
    qed (insert unf, simp_all)
  qed
qed

text \<open>
  C3. The claim: for a valid variable matrix and a scalar constant \<open>k\<close>,
  \<^verbatim>\<open>vm.Plus(k)\<close> returns the matrix of the entries plus \<open>k\<close> and \<^verbatim>\<open>vm.Multiply(k)\<close>
  the matrix of the entries scaled by \<open>k\<close>, and neither call aborts. The code at the valid
  one-by-one matrix of the variable \<open>x\<close>: \<^verbatim>\<open>Plus(K(1))\<close> and \<^verbatim>\<open>Multiply(K(2))\<close> both
  end in the panic that closes the method, and a \<^verbatim>\<open>float64\<close> operand panics already at
  the operand check.
\<close>

theorem VariableMatrix_Plus_Multiply_scalar_abort:
  "VariableMatrix_Check [[\<lparr>ID = 1\<rparr>]] = None
   \<and> VariableMatrix_Plus [[\<lparr>ID = 1\<rparr>]] (OK 1)
       = Inl (UnsupportedInputError ''VariableMatrix.Plus'' (OK 1))
   \<and> VariableMatrix_Multiply [[\<lparr>ID = 1\<rparr>]] (OK 2)
       = Inl (UnsupportedInputError ''VariableMatrix.Multiply'' (OK 2))
   \<and> VariableMatrix_Plus [[\<lparr>ID = 1\<rparr>]] (OFloat 1) = Inl NilPointerDereference
   \<and> VariableMatrix_Multiply [[\<lparr>ID = 1\<rparr>]] (OFloat 2) = Inl NilPointerDereference"
  by (simp add: VariableMatrix_Plus.simps VariableMatrix_Multiply.simps VariableMatrix_Check_def
      Variable_Check_def VariableMatrix_guard_def IsExpression_def K_Check_def
      CheckDimensionsInAddition_def CheckDimensionsInMultiplication_def VariableMatrix_Dims_def
      K_Dims_def smErrors_IsScalarExpression_def Variable_Plus_K_def Variable_Multiply_K_def)

subsection \<open>Validity checks\<close>

lemma Polynomial_Check_loop_None_iff:
  "(Polynomial_Check_loop ms = None) =
     (\<forall>m \<in> set ms. length (Exponents m) = length (VariableFactors m))"
  by (induction ms) (auto simp: Monomial_Check_def)

lemma VariableMatrix_Check_columns_None_iff:
  "(VariableMatrix_Check_columns n ii rows = None) = (\<forall>r \<in> set rows. int (length r) = n)"
  by (induction rows arbitrary: ii) auto

lemma VariableMatrix_Check_row_None: "VariableMatrix_Check_row ii jj vs = None"
  by (induction vs arbitrary: jj) (simp_all add: Variable_Check_def)

lemma VariableMatrix_Check_entries_None: "VariableMatrix_Check_entries ii rows = None"
  by (induction rows arbitrary: ii) (simp_all add: VariableMatrix_Check_row_None)

text \<open>
  \<^verbatim>\<open>VariableMatrix.Check\<close> accepts exactly the matrices with at least one row whose
  rows all have the length of the first.
\<close>

lemma VariableMatrix_Check_None_iff:
  "(VariableMatrix_Check vm = None) =
     (vm \<noteq> [] \<and> (\<forall>r \<in> set vm. length r = length (vm ! 0)))"
proof (cases "vm = []")
  case True
  then show ?thesis by (simp add: VariableMatrix_Check_def)
next
  case False
  have cols: "(VariableMatrix_Check_columns (int (length (vm ! 0))) 0 vm = None)
                = (\<forall>r \<in> set vm. length r = length (vm ! 0))"
    by (simp add: VariableMatrix_Check_columns_None_iff)
  from False have "VariableMatrix_Check vm =
      (case VariableMatrix_Check_columns (int (length (vm ! 0))) 0 vm of
         Some err \<Rightarrow> Some err | None \<Rightarrow> None)"
    by (simp add: VariableMatrix_Check_def VariableMatrix_Check_entries_None
        cong: option.case_cong)
  then have "(VariableMatrix_Check vm = None)
      = (VariableMatrix_Check_columns (int (length (vm ! 0))) 0 vm = None)"
    by (cases "VariableMatrix_Check_columns (int (length (vm ! 0))) 0 vm") simp_all
  with cols False show ?thesis by simp
qed

text \<open>
  C4. The claim: \<^verbatim>\<open>Check\<close> returns an "empty" error for a polynomial with no
  monomials, a variable vector with no elements and a variable matrix with no rows, and
  \<^verbatim>\<open>nil\<close> for every well-formed container. The code at the three empty containers:
  only the matrix is rejected; the empty polynomial and the empty variable vector pass
  their checks.
\<close>

theorem Check_accepts_empty_Polynomial_and_VariableVector:
  "Polynomial_Check \<lparr>Monomials = []\<rparr> = None
   \<and> VariableVector_Check \<lparr>Elements = []\<rparr> = None
   \<and> VariableMatrix_Check [] = Some (EmptyMatrixError (OVariableMatrix []))"
  by (simp add: Polynomial_Check_def VariableVector_Check_def VariableMatrix_Check_def)

subsection \<open>Dimension errors\<close>

lemma CheckDimensionsInAddition_result:
  assumes "Expression_Dims left = Inr ld" and "Expression_Dims right = Inr rd"
  shows "CheckDimensionsInAddition left right =
           Inr (if (ld ! 0 = rd ! 0 \<and> ld ! 1 = rd ! 1)
                   \<or> (ld ! 0 = 1 \<and> ld ! 1 = 1) \<or> (rd ! 0 = 1 \<and> rd ! 1 = 1)
                then None else Some (DimensionError left right ''Plus''))"
  using assms by (simp add: CheckDimensionsInAddition_def smErrors_IsScalarExpression_def)

lemma CheckDimensionsInMultiplication_result:
  assumes "Expression_Dims left = Inr ld" and "Expression_Dims right = Inr rd"
  shows "CheckDimensionsInMultiplication left right =
           Inr (if ld ! 1 = rd ! 0
                   \<or> (ld ! 0 = 1 \<and> ld ! 1 = 1) \<or> (rd ! 0 = 1 \<and> rd ! 1 = 1)
                then None else Some (DimensionError left right ''Multiply''))"
  using assms by (simp add: CheckDimensionsInMultiplication_def smErrors_IsScalarExpression_def)

lemma VariableVector_Dims_value:
  "Expression_Dims (OVariableVector vv) = Inr [int (length (Elements vv)), 1]"
  by (simp add: VariableVector_Dims_def VariableVector_Len_def VariableVector_Length_def)

lemma VariableMatrix_Dims_value:
  "VariableMatrix_Check vm = None \<Longrightarrow>
     Expression_Dims (OVariableMatrix vm) = Inr [int (length vm), int (length (vm ! 0))]"
  by (simp add: VariableMatrix_Dims_def)

text \<open>
  The sibling paths raise the dimension error: \<^verbatim>\<open>VariableVector.Multiply\<close> on two
  vectors longer than one, \<^verbatim>\<open>VariableMatrix.Plus\<close> and \<^verbatim>\<open>VariableMatrix.Multiply\<close>
  on two matrices of incompatible shape, neither of them one by one.
\<close>

lemma VariableVector_Multiply_mismatch:
  assumes "length (Elements vv) \<noteq> 1" and "length (Elements right) \<noteq> 1"
  shows "VariableVector_Multiply vv (OVariableVector right) =
           Inl (DimensionError (OVariableVector vv) (OVariableVector right) ''Multiply'')"
  using assms
  by (simp add: VariableVector_Multiply_def VariableVector_Check_None dimension_guard_def
      IsExpression_def ToExpression_def
      CheckDimensionsInMultiplication_result[OF VariableVector_Dims_value
        VariableVector_Dims_value])

lemma VariableVector_Multiply_scalar:
  "VariableVector_Multiply vv (OK k) =
     Inl (UnexpectedTypeError ''VariableVector.Multiply'' (OK k))"
  by (simp add: VariableVector_Multiply_def VariableVector_Check_None dimension_guard_def
      IsExpression_def ToExpression_def CheckDimensionsInMultiplication_def
      VariableVector_Dims_def K_Dims_def)

lemma VariableMatrix_Plus_mismatch:
  assumes "VariableMatrix_Check vm = None" and "VariableMatrix_Check right = None"
    and "length vm \<noteq> length right \<or> length (vm ! 0) \<noteq> length (right ! 0)"
    and "\<not> (length vm = 1 \<and> length (vm ! 0) = 1)"
    and "\<not> (length right = 1 \<and> length (right ! 0) = 1)"
  shows "VariableMatrix_Plus vm (OVariableMatrix right) =
           Inl (DimensionError (OVariableMatrix vm) (OVariableMatrix right) ''Plus'')"
proof -
  have "CheckDimensionsInAddition (OVariableMatrix vm) (OVariableMatrix right) =
          Inr (Some (DimensionError (OVariableMatrix vm) (OVariableMatrix right) ''Plus''))"
    using assms(3-5)
    by (auto simp: CheckDimensionsInAddition_result[OF VariableMatrix_Dims_value[OF assms(1)]
          VariableMatrix_Dims_value[OF assms(2)]])
  then have "VariableMatrix_guard ''VariableMatrix.Plus'' CheckDimensionsInAddition vm
               (OVariableMatrix right) =
             Some (DimensionError (OVariableMatrix vm) (OVariableMatrix right) ''Plus'')"
    using assms(2) by (simp add: VariableMatrix_guard_def IsExpression_def)
  with assms(1) show ?thesis by (subst VariableMatrix_Plus.simps) simp
qed

lemma VariableMatrix_Multiply_mismatch:
  assumes "VariableMatrix_Check vm = None" and "VariableMatrix_Check right = None"
    and "length (vm ! 0) \<noteq> length right"
    and "\<not> (length vm = 1 \<and> length (vm ! 0) = 1)"
    and "\<not> (length right = 1 \<and> length (right ! 0) = 1)"
  shows "VariableMatrix_Multiply vm (OVariableMatrix right) =
           Inl (DimensionError (OVariableMatrix vm) (OVariableMatrix right) ''Multiply'')"
proof -
  have "CheckDimensionsInMultiplication (OVariableMatrix vm) (OVariableMatrix right) =
          Inr (Some (DimensionError (OVariableMatrix vm) (OVariableMatrix right) ''Multiply''))"
    using assms(3-5)
    by (auto simp: CheckDimensionsInMultiplication_result[OF
          VariableMatrix_Dims_value[OF assms(1)] VariableMatrix_Dims_value[OF assms(2)]])
  then have "VariableMatrix_guard ''VariableMatrix.Multiply'' CheckDimensionsInMultiplication vm
               (OVariableMatrix right) =
             Some (DimensionError (OVariableMatrix vm) (OVariableMatrix right) ''Multiply'')"
    using assms(2) by (simp add: VariableMatrix_guard_def IsExpression_def)
  with assms(1) show ?thesis by (subst VariableMatrix_Multiply.simps) simp
qed

text \<open>\<^verbatim>\<open>VariableVector.Plus\<close> has one answer for every vector and every operand.\<close>

lemma VariableVector_Plus_always:
  "VariableVector_Plus vv e = Inl (UnexpectedTypeError ''VariableVector.Plus'' e)"
  by (simp add: VariableVector_Plus_def VariableVector_Check_None)

text \<open>
  C5. The claim: \<^verbatim>\<open>Plus\<close> and \<^verbatim>\<open>Multiply\<close> on two valid non-scalar containers of
  incompatible shape abort with a \<^verbatim>\<open>DimensionError\<close> that carries the operation name
  and both operands, and raise no \<^verbatim>\<open>DimensionError\<close> otherwise. The code at the valid
  variable vectors of lengths two and three (shapes \<open>[2, 1]\<close> and \<open>[3, 1]\<close>):
  \<^verbatim>\<open>VariableVector.Plus\<close> runs no dimension check and panics with its
  unrecognised-type error, not with a \<^verbatim>\<open>DimensionError\<close>.
\<close>

theorem VariableVector_Plus_mismatch_not_DimensionError:
  "VariableVector_Check \<lparr>Elements = [\<lparr>ID = 1\<rparr>, \<lparr>ID = 2\<rparr>]\<rparr> = None
   \<and> VariableVector_Check \<lparr>Elements = [\<lparr>ID = 3\<rparr>, \<lparr>ID = 4\<rparr>, \<lparr>ID = 5\<rparr>]\<rparr> = None
   \<and> VariableVector_Dims \<lparr>Elements = [\<lparr>ID = 1\<rparr>, \<lparr>ID = 2\<rparr>]\<rparr> = [2, 1]
   \<and> VariableVector_Dims \<lparr>Elements = [\<lparr>ID = 3\<rparr>, \<lparr>ID = 4\<rparr>, \<lparr>ID = 5\<rparr>]\<rparr> = [3, 1]
   \<and> VariableVector_Plus \<lparr>Elements = [\<lparr>ID = 1\<rparr>, \<lparr>ID = 2\<rparr>]\<rparr>
        (OVariableVector \<lparr>Elements = [\<lparr>ID = 3\<rparr>, \<lparr>ID = 4\<rparr>, \<lparr>ID = 5\<rparr>]\<rparr>)
       = Inl (UnexpectedTypeError ''VariableVector.Plus''
               (OVariableVector \<lparr>Elements = [\<lparr>ID = 3\<rparr>, \<lparr>ID = 4\<rparr>, \<lparr>ID = 5\<rparr>]\<rparr>))"
  by (simp add: VariableVector_Plus_def VariableVector_Check_def Variable_Check_def
      VariableVector_Dims_def VariableVector_Len_def VariableVector_Length_def)

subsection \<open>Comparison of vectors and scalars\<close>

lemma kAsKVector_loop_replicate:
  "0 \<le> ii \<Longrightarrow> ii \<le> n \<Longrightarrow>
     kAsKVector_loop c n ii acc = acc @ replicate (nat (n - ii)) c"
proof (induction c n ii acc rule: kAsKVector_loop.induct)
  case (1 c n ii kAsKVector)
  show ?case
  proof (cases "ii < n")
    case True
    then have "nat (n - ii) = Suc (nat (n - (ii + 1)))" by simp
    with True 1 show ?thesis
      by (subst kAsKVector_loop.simps) (simp add: replicate_app_Cons_same)
  next
    case False
    with 1 show ?thesis by (subst kAsKVector_loop.simps) simp
  qed
qed

text \<open>
  With the scalar as the receiver the broadcast is there: \<^verbatim>\<open>K.Comparison\<close> against a
  vector of length \<open>n\<close> puts \<open>n\<close> copies of the constant on the left-hand side.
\<close>

lemma K_Comparison_KVector:
  assumes "right \<noteq> []"
  shows "K_Comparison c (OKVector right) sense =
           Inr (VectorConstraint (OKVector (replicate (length right) c)) (OKVector right) sense)"
  using assms
  by (subst K_Comparison.simps)
     (simp add: K_guard_def IsExpression_def ToExpression_def KVector_Check_def
        kAsKVector_loop_replicate)

lemma K_Comparison_VariableVector:
  "K_Comparison c (OVariableVector right) sense =
     Inr (VectorConstraint (OKVector (replicate (length (Elements right)) c))
            (OVariableVector right) sense)"
  by (subst K_Comparison.simps)
     (simp add: K_guard_def IsExpression_def ToExpression_def VariableVector_Check_None
        kAsKVector_loop_replicate)

text \<open>
  Two variable vectors: of different lengths the comparison panics with the formatted
  error that carries the sense and the two lengths, of equal lengths it returns the
  constraint of the two operands.
\<close>

lemma VariableVector_Comparison_mismatch:
  assumes "length (Elements vv) \<noteq> length (Elements right)"
  shows "VariableVector_Comparison vv (OVariableVector right) sense =
           Inl (ComparisonLengthError sense (int (length (Elements vv)))
                  (int (length (Elements right))))"
  using assms
  by (subst VariableVector_Comparison.simps)
     (simp add: VariableVector_Len_def VariableVector_Length_def)

lemma VariableVector_Comparison_KVector_mismatch:
  assumes "length (Elements vv) \<noteq> length right"
  shows "VariableVector_Comparison vv (OKVector right) sense =
           Inl (ComparisonLengthError sense (int (length (Elements vv))) (int (length right)))"
  using assms
  by (subst VariableVector_Comparison.simps)
     (simp add: VariableVector_Len_def VariableVector_Length_def KVector_Len_def)

lemma VariableVector_Comparison_match:
  assumes "length (Elements vv) = length (Elements right)"
  shows "VariableVector_Comparison vv (OVariableVector right) sense =
           Inr (VectorConstraint (OVariableVector vv) (OVariableVector right) sense)"
  using assms
  by (subst VariableVector_Comparison.simps)
     (simp add: VariableVector_Len_def VariableVector_Length_def)

lemma VariableVector_Comparison_scalar:
  "IsScalarExpression e \<Longrightarrow>
     VariableVector_Comparison vv e sense =
       Inl (NotImplementedError ''VariableVector.Comparison'' e)"
  by (cases e) (simp_all add: VariableVector_Comparison.simps)

text \<open>
  C6. The claim: comparing a vector of length \<open>n\<close> with a scalar gives a vector
  constraint whose scalar side is \<open>n\<close> copies of the scalar, and comparing two vectors
  of different lengths aborts with a \<^verbatim>\<open>DimensionError\<close>. The code at the variable
  vector of length two compared with the scalar \<open>5\<close>, given as a constant or as a
  \<^verbatim>\<open>float64\<close>: no constraint is built, \<^verbatim>\<open>VariableVector.Comparison\<close> panics in its
  default case.
\<close>

theorem VariableVector_Comparison_scalar_not_implemented:
  "VariableVector_Check \<lparr>Elements = [\<lparr>ID = 1\<rparr>, \<lparr>ID = 2\<rparr>]\<rparr> = None
   \<and> VariableVector_Comparison \<lparr>Elements = [\<lparr>ID = 1\<rparr>, \<lparr>ID = 2\<rparr>]\<rparr> (OK 5) SenseLessThanEqual
     = Inl (NotImplementedError ''VariableVector.Comparison'' (OK 5))
   \<and> VariableVector_Comparison \<lparr>Elements = [\<lparr>ID = 1\<rparr>, \<lparr>ID = 2\<rparr>]\<rparr> (OFloat 5)
        SenseLessThanEqual
     = Inl (NotImplementedError ''VariableVector.Comparison'' (OFloat 5))"
  by (simp add: VariableVector_Comparison.simps VariableVector_Check_def Variable_Check_def)

subsection \<open>The constant part\<close>




subsection \<open>The variables of a container\<close>

lemma inj_ID: "inj (ID :: Variable \<Rightarrow> 64 word)"
proof (rule injI)
  fix x y :: Variable
  assume "ID x = ID y"
  then show "x = y" by (cases x, cases y) simp
qed

lemma UniqueVars_distinct:
  "distinct (map ID acc) \<Longrightarrow> distinct (map ID (UniqueVars vs acc))"
  by (induction vs arbitrary: acc) auto

lemma UniqueVars_set:
  "ID ` set (UniqueVars vs acc) = ID ` (set vs \<union> set acc)"
  by (induction vs arbitrary: acc) auto

text \<open>
  The polynomial and the variable matrix pass their variables through
  \<^verbatim>\<open>UniqueVars\<close>: the result holds every variable of the container, each identifier
  once.
\<close>

lemma Polynomial_Variables_distinct:
  "distinct (map ID (Polynomial_Variables p))
   \<and> set (Polynomial_Variables p) = (\<Union>m \<in> set (Monomials p). set (VariableFactors m))"
proof -
  have "ID ` set (Polynomial_Variables p) =
          ID ` (\<Union>m \<in> set (Monomials p). set (VariableFactors m))"
    by (simp add: Polynomial_Variables_def UniqueVars_set Monomial_Variables_def)
  with inj_ID have "set (Polynomial_Variables p) =
          (\<Union>m \<in> set (Monomials p). set (VariableFactors m))"
    by (simp add: inj_image_eq_iff)
  then show ?thesis by (simp add: Polynomial_Variables_def UniqueVars_distinct)
qed

lemma VariableMatrix_Variables_distinct:
  assumes "VariableMatrix_Check vm = None"
  shows "\<exists>vs. VariableMatrix_Variables vm = Inr vs \<and> distinct (map ID vs)
           \<and> set vs = (\<Union>r \<in> set vm. set r)"
proof -
  have "ID ` set (UniqueVars (concat vm) []) = ID ` (\<Union>r \<in> set vm. set r)"
    by (simp add: UniqueVars_set)
  with inj_ID have "set (UniqueVars (concat vm) []) = (\<Union>r \<in> set vm. set r)"
    by (simp add: inj_image_eq_iff)
  with assms show ?thesis
    by (simp add: VariableMatrix_Variables_def UniqueVars_distinct)
qed

text \<open>
  C8. The claim: \<^verbatim>\<open>Variables\<close> of a polynomial, a variable vector or a variable
  matrix returns every variable of the container with no identifier more than once. The
  code at the valid variable vector whose two elements are the same variable:
  \<^verbatim>\<open>VariableVector.Variables\<close> returns the elements as they are, the variable twice.
\<close>

theorem VariableVector_Variables_keeps_duplicates:
  "VariableVector_Check \<lparr>Elements = [\<lparr>ID = 1\<rparr>, \<lparr>ID = 1\<rparr>]\<rparr> = None
   \<and> VariableVector_Variables \<lparr>Elements = [\<lparr>ID = 1\<rparr>, \<lparr>ID = 1\<rparr>]\<rparr>
       = [\<lparr>ID = 1\<rparr>, \<lparr>ID = 1\<rparr>]
   \<and> \<not> distinct (map ID (VariableVector_Variables \<lparr>Elements = [\<lparr>ID = 1\<rparr>, \<lparr>ID = 1\<rparr>]\<rparr>))"
  by (simp add: VariableVector_Variables_def VariableVector_Check_def Variable_Check_def)

subsection \<open>The receiver after Multiply\<close>

lemma Monomial_Multiply_K:
  "Monomial_Check m = None \<Longrightarrow>
     Monomial_Multiply m (OK k) = Inr (OMonomial (m\<lparr>Coefficient := Coefficient m * k\<rparr>))"
  by (simp add: Monomial_Multiply_Monomial_def K_ToMonomial_def)

text \<open>
  The loop from index \<open>ii\<close> on: it ends without an error, keeps the length of the backing
  array and replaces every entry from \<open>ii\<close> up to the length of the slice by its product
  with \<open>k\<close>.
\<close>

lemma Multiply_loop_K:
  assumes "n = slice_len p - ii" and "ii \<le> slice_len p"
    and "slice_len p \<le> length (st (slice_array p))"
    and "\<forall>j. ii \<le> j \<and> j < slice_len p \<longrightarrow> Monomial_Check (st (slice_array p) ! j) = None"
  shows "\<exists>st'. Multiply_loop (OK k) p ii st = (st', None)
           \<and> length (st' (slice_array p)) = length (st (slice_array p))
           \<and> (\<forall>j < length (st (slice_array p)).
                 st' (slice_array p) ! j =
                   (if ii \<le> j \<and> j < slice_len p
                    then (st (slice_array p) ! j)
                           \<lparr>Coefficient := Coefficient (st (slice_array p) ! j) * k\<rparr>
                    else st (slice_array p) ! j))"
  using assms
proof (induction n arbitrary: ii st)
  case 0
  then have "\<not> ii < slice_len p" by simp
  then have "Multiply_loop (OK k) p ii st = (st, None)"
    by (subst Multiply_loop.simps) simp
  with 0 show ?case by simp
next
  case (Suc n)
  let ?a = "slice_array p"
  let ?m = "st ?a ! ii"
  let ?st1 = "st(?a := (st ?a)[ii := ?m\<lparr>Coefficient := Coefficient ?m * k\<rparr>])"
  from Suc.prems have lt: "ii < slice_len p" by simp
  with Suc.prems have ok: "Monomial_Check ?m = None" by simp
  have step: "Multiply_loop (OK k) p ii st = Multiply_loop (OK k) p (ii + 1) ?st1"
    using lt ok
    by (subst Multiply_loop.simps) (simp add: Monomial_Multiply_K del: Monomial_Multiply.simps)
  have n: "n = slice_len p - (ii + 1)" using Suc.prems by simp
  have le: "ii + 1 \<le> slice_len p" using lt by simp
  have len1: "slice_len p \<le> length (?st1 ?a)" using Suc.prems by simp
  have valid1: "\<forall>j. ii + 1 \<le> j \<and> j < slice_len p \<longrightarrow> Monomial_Check (?st1 ?a ! j) = None"
    using Suc.prems by simp
  from Suc.IH[of "ii + 1" ?st1] n le len1 valid1 obtain st' where
    r: "Multiply_loop (OK k) p (ii + 1) ?st1 = (st', None)"
    and l: "length (st' ?a) = length (?st1 ?a)"
    and v: "\<forall>j < length (?st1 ?a). st' ?a ! j =
              (if ii + 1 \<le> j \<and> j < slice_len p
               then (?st1 ?a ! j)\<lparr>Coefficient := Coefficient (?st1 ?a ! j) * k\<rparr>
               else ?st1 ?a ! j)"
    by blast
  have "\<forall>j < length (st ?a). st' ?a ! j =
          (if ii \<le> j \<and> j < slice_len p
           then (st ?a ! j)\<lparr>Coefficient := Coefficient (st ?a ! j) * k\<rparr>
           else st ?a ! j)"
  proof (intro allI impI)
    fix j assume j: "j < length (st ?a)"
    show "st' ?a ! j =
          (if ii \<le> j \<and> j < slice_len p
           then (st ?a ! j)\<lparr>Coefficient := Coefficient (st ?a ! j) * k\<rparr>
           else st ?a ! j)"
    proof (cases "j = ii")
      case True
      with v j lt show ?thesis by simp
    next
      case False
      with v j show ?thesis by (auto simp: nth_list_update)
    qed
  qed
  with step r l show ?case by simp
qed

lemma Polynomial_Check_at:
  assumes "slice_len p \<le> length (st (slice_array p))"
    and "Polynomial_Check (Polynomial_at st p) = None" and "j < slice_len p"
  shows "Monomial_Check (st (slice_array p) ! j) = None"
proof -
  have gen: "Polynomial_Check_loop ms = None \<Longrightarrow> m \<in> set ms \<Longrightarrow> Monomial_Check m = None"
    for ms m
    by (induction ms) (auto split: option.splits)
  from assms have "st (slice_array p) ! j \<in> set (take (slice_len p) (st (slice_array p)))"
    by (metis length_take min.absorb2 nth_mem nth_take)
  with assms gen show ?thesis by (simp add: Polynomial_Check_def Polynomial_at_def)
qed

lemma guard_Multiply_Polynomial_K:
  "dimension_guard CheckDimensionsInMultiplication (OPolynomial q) (OK k) = None"
  by (simp add: dimension_guard_def IsExpression_def ToExpression_def
      CheckDimensionsInMultiplication_def Polynomial_Dims_def K_Dims_def)

text \<open>
  On every valid polynomial, \<^verbatim>\<open>Multiply\<close> by a constant returns the receiver's own
  header, and the receiver read back from the store holds the products, not its original
  monomials.
\<close>

lemma Polynomial_Multiply_K_overwrites_receiver:
  assumes "slice_len p \<le> length (st (slice_array p))"
    and "Polynomial_Check (Polynomial_at st p) = None"
  shows "\<exists>st'. Polynomial_Multiply st p (OK k) = (st', Inr p)
           \<and> Monomials (Polynomial_at st' p) =
               map (\<lambda>m. m\<lparr>Coefficient := Coefficient m * k\<rparr>)
                 (Monomials (Polynomial_at st p))"
proof -
  have valid: "\<forall>j. 0 \<le> j \<and> j < slice_len p \<longrightarrow>
                 Monomial_Check (st (slice_array p) ! j) = None"
    using assms Polynomial_Check_at by blast
  from Multiply_loop_K[of "slice_len p" p 0 st k] assms(1) valid obtain st' where
    r: "Multiply_loop (OK k) p 0 st = (st', None)"
    and l: "length (st' (slice_array p)) = length (st (slice_array p))"
    and v: "\<forall>j < length (st (slice_array p)).
              st' (slice_array p) ! j =
                (if 0 \<le> j \<and> j < slice_len p
                 then (st (slice_array p) ! j)
                        \<lparr>Coefficient := Coefficient (st (slice_array p) ! j) * k\<rparr>
                 else st (slice_array p) ! j)"
    by auto
  have res: "Polynomial_Multiply st p (OK k) = (st', Inr p)"
    using assms(2) r
    by (subst Polynomial_Multiply.simps) (simp add: guard_Multiply_Polynomial_K)
  have "take (slice_len p) (st' (slice_array p)) =
        map (\<lambda>m. m\<lparr>Coefficient := Coefficient m * k\<rparr>)
          (take (slice_len p) (st (slice_array p)))"
    using assms(1) l v by (intro nth_equalityI) simp_all
  with res show ?thesis by (simp add: Polynomial_at_def)
qed

text \<open>
  C9. The claim: an algebra operation returns a new value and leaves its operands
  unchanged; after \<^verbatim>\<open>p.Plus(e)\<close> or \<^verbatim>\<open>p.Multiply(e)\<close> the receiver still holds its
  original monomials and coefficients. The code at the polynomial \<open>3x\<close>, stored in a
  backing array of one monomial: after \<^verbatim>\<open>p.Multiply(K(2))\<close> the result is the
  receiver's own slice header, and the receiver reads \<open>6x\<close>.
\<close>

theorem Polynomial_Multiply_mutates_receiver:
  "Polynomial_at
       ((\<lambda>a. [])(0 := [\<lparr>Coefficient = 3, VariableFactors = [\<lparr>ID = 1\<rparr>], Exponents = [1]\<rparr>]))
       \<lparr>slice_array = 0, slice_len = 1, slice_cap = 1\<rparr>
     = \<lparr>Monomials = [\<lparr>Coefficient = 3, VariableFactors = [\<lparr>ID = 1\<rparr>], Exponents = [1]\<rparr>]\<rparr>
   \<and> Polynomial_Check
       \<lparr>Monomials = [\<lparr>Coefficient = 3, VariableFactors = [\<lparr>ID = 1\<rparr>], Exponents = [1]\<rparr>]\<rparr>
     = None
   \<and> snd (Polynomial_Multiply
        ((\<lambda>a. [])(0 := [\<lparr>Coefficient = 3, VariableFactors = [\<lparr>ID = 1\<rparr>], Exponents = [1]\<rparr>]))
        \<lparr>slice_array = 0, slice_len = 1, slice_cap = 1\<rparr> (OK 2))
     = Inr \<lparr>slice_array = 0, slice_len = 1, slice_cap = 1\<rparr>
   \<and> Polynomial_at (fst (Polynomial_Multiply
        ((\<lambda>a. [])(0 := [\<lparr>Coefficient = 3, VariableFactors = [\<lparr>ID = 1\<rparr>], Exponents = [1]\<rparr>]))
        \<lparr>slice_array = 0, slice_len = 1, slice_cap = 1\<rparr> (OK 2)))
       \<lparr>slice_array = 0, slice_len = 1, slice_cap = 1\<rparr>
     = \<lparr>Monomials = [\<lparr>Coefficient = 6, VariableFactors = [\<lparr>ID = 1\<rparr>], Exponents = [1]\<rparr>]\<rparr>"
  by (simp add: Polynomial_Multiply.simps Multiply_loop.simps Polynomial_at_def
      Polynomial_Check_def Monomial_Check_def dimension_guard_def IsExpression_def
      ToExpression_def CheckDimensionsInMultiplication_def Polynomial_Dims_def K_Dims_def
      Monomial_Multiply_Monomial_def K_ToMonomial_def)

subsection \<open>Transposing a variable vector\<close>

text \<open>
  C10. For every variable vector of length \<open>n\<close>, \<^verbatim>\<open>Transpose\<close> returns the receiver
  itself, and the dimensions of the result are still \<open>[n, 1]\<close>, those of the receiver.
\<close>

theorem VariableVector_Transpose_identity:
  "VariableVector_Transpose vv = OVariableVector vv
   \<and> Expression_Dims (VariableVector_Transpose vv) = Inr [int (length (Elements vv)), 1]
   \<and> Expression_Dims (VariableVector_Transpose vv) = Inr (VariableVector_Dims vv)"
  by (simp add: VariableVector_Transpose_def VariableVector_Dims_def VariableVector_Len_def
      VariableVector_Length_def)

end
